theory Spec2Isabelle
  imports Complex_Main "HOL-Library.Monad_Syntax"
begin

section \<open>Tensors and the TensorFlow operations used by losses.py\<close>

text \<open>
  The losses of \<^verbatim>\<open>losses.py\<close> are pure functions of rank-2 tensors. A rank-1 tensor is
  a list of numbers, a rank-2 tensor a list of rows, a rank-3 tensor a list of matrices.
  A float32 cell that holds a finite number is modelled by that number as a \<^typ>\<open>real\<close>:
  rounding and overflow are left out. A cell that is not a finite number (NaN or an
  infinity) is never stored: an operation that would produce one (the logarithm of a
  number that is not positive, a quotient by zero, the mean of no numbers) returns
  \<open>None\<close>, and the operations that follow it in the source (\<open>*\<close>, \<open>+\<close>, negation, sums
  and means) keep a value that is not finite not finite, so \<open>None\<close> is passed on to the
  result. The minimum of no numbers, \<open>+inf\<close>, is only compared with other cells and is
  modelled where \<open>tf.reduce_min\<close> is. A result \<open>Some r\<close> says that the exact computation
  gives \<open>r\<close>; whether float32 arithmetic stays in its range on the way (no sum or
  exponential that overflows, no softmax output that underflows to 0) is not modelled.

  An elementwise operation on two tensors of one rank pairs the cells of its operands,
  broadcasting an axis on which one operand has size one. The docstring of
  \<open>BaseLoss.calculate_loss\<close> gives labels the shape of the predictions; the shape error
  TensorFlow raises for operands whose shapes do not fit is not part of this model,
  and every theorem that reads a cell by its position states the shapes it is about.
\<close>

type_synonym vector = "real list"
type_synonym matrix = "real list list"
type_synonym tensor3 = "real list list list"

definition has_shape :: "'a list list \<Rightarrow> nat \<Rightarrow> nat \<Rightarrow> bool" where
  "has_shape m b n = (length m = b \<and> (\<forall>row \<in> set m. length row = n))"

definition ew1 :: "('a \<Rightarrow> 'b) \<Rightarrow> 'a list list \<Rightarrow> 'b list list" where
  "ew1 f m = map (map f) m"

text \<open>
  Broadcasting along one axis: an operand with one entry along the axis is paired with
  every entry of the other operand; operands of one length are paired entry by entry.
\<close>

fun bcast :: "('a \<Rightarrow> 'b \<Rightarrow> 'c) \<Rightarrow> 'a list \<Rightarrow> 'b list \<Rightarrow> 'c list" where
  "bcast f [x] ys = map (f x) ys"
| "bcast f xs [y] = map (\<lambda>x. f x y) xs"
| "bcast f xs ys = map2 f xs ys"

definition ew2 :: "('a \<Rightarrow> 'b \<Rightarrow> 'c) \<Rightarrow> 'a list list \<Rightarrow> 'b list list \<Rightarrow> 'c list list" where
  "ew2 f a b = bcast (bcast f) a b"

definition ew3 :: "('a \<Rightarrow> 'b \<Rightarrow> 'c) \<Rightarrow> 'a list list list \<Rightarrow> 'b list list list \<Rightarrow> 'c list list list" where
  "ew3 f a b = bcast (bcast (bcast f)) a b"

text \<open>\<open>tf.cast(labels, tf.float32)\<close>: labels arrive as numbers (0 and 1 for a boolean
  tensor); the cast keeps the value.\<close>

definition tf_cast_float32 :: "matrix \<Rightarrow> matrix" where
  "tf_cast_float32 m = m"

text \<open>\<open>m + c\<close>, \<open>c - m\<close> and \<open>c * m\<close> for a Python number \<open>c\<close> and a tensor \<open>m\<close>.\<close>

definition add_scalar :: "matrix \<Rightarrow> real \<Rightarrow> matrix" where
  "add_scalar m c = ew1 (\<lambda>x. x + c) m"

definition scalar_sub :: "real \<Rightarrow> matrix \<Rightarrow> matrix" where
  "scalar_sub c m = ew1 (\<lambda>x. c - x) m"

definition tf_scalar_mul :: "real \<Rightarrow> matrix \<Rightarrow> matrix" where
  "tf_scalar_mul c m = ew1 (\<lambda>x. c * x) m"

definition tf_multiply :: "matrix \<Rightarrow> matrix \<Rightarrow> matrix" where
  "tf_multiply a b = ew2 (\<lambda>x y. x * y) a b"

definition tf_add :: "matrix \<Rightarrow> matrix \<Rightarrow> matrix" where
  "tf_add a b = ew2 (\<lambda>x y. x + y) a b"

definition tf_subtract :: "matrix \<Rightarrow> matrix \<Rightarrow> matrix" where
  "tf_subtract a b = ew2 (\<lambda>x y. x - y) a b"

definition tf_maximum :: "matrix \<Rightarrow> matrix \<Rightarrow> matrix" where
  "tf_maximum a b = ew2 max a b"

definition tf_negative :: "matrix \<Rightarrow> matrix" where
  "tf_negative m = ew1 uminus m"

text \<open>\<open>tf.log\<close>: the natural logarithm of every cell. The logarithm of zero is
  \<open>-inf\<close> and that of a negative number is NaN, so the result has only finite cells
  when every cell of the argument is positive.\<close>

definition tf_log :: "matrix \<Rightarrow> matrix option" where
  "tf_log m = (if \<forall>row \<in> set m. \<forall>x \<in> set row. 0 < x then Some (ew1 ln m) else None)"

text \<open>\<open>tf.reduce_sum(m, 1)\<close> sums every row; \<open>tf.reduce_mean\<close> of a rank-1 tensor
  divides its sum by its length, which is NaN (\<open>0 / 0\<close>) for the empty tensor.\<close>

definition tf_reduce_sum_1 :: "matrix \<Rightarrow> vector" where
  "tf_reduce_sum_1 m = map sum_list m"

definition tf_reduce_mean :: "vector \<Rightarrow> real option" where
  "tf_reduce_mean v = (if v = [] then None else Some (sum_list v / real (length v)))"

section \<open>Flags and errors\<close>

text \<open>The process-wide \<open>FLAGS\<close> the losses read. \<open>batch_size\<close> is defined by another
  module of the program; it is a field like the three flags \<^verbatim>\<open>losses.py\<close> defines.\<close>

record flags =
  false_negative_punishment :: real
  false_positive_punishment :: real
  num_classes :: int
  batch_size :: int

text \<open>\<open>TensorFlowError\<close> stands for an error the framework raises while it builds or runs
  the graph (\<open>ValueError\<close>, \<open>InvalidArgumentError\<close>).\<close>

datatype error = NotImplementedError | TensorFlowError

text \<open>A keyword parameter with a default value: left out by the caller, or given.\<close>

datatype 'a kwarg = Default | Given 'a

fun kwarg_value :: "'a \<Rightarrow> 'a kwarg \<Rightarrow> 'a" where
  "kwarg_value d Default = d"
| "kwarg_value d (Given v) = v"

section \<open>BaseLoss\<close>

definition BaseLoss_calculate_loss :: "'p \<Rightarrow> 'q \<Rightarrow> 'l \<Rightarrow> 'k \<Rightarrow> error + real" where
  "BaseLoss_calculate_loss unused_predictions unused_positives unused_labels unused_params =
     Inl NotImplementedError"

section \<open>WeightedCrossEntropyLoss and CrossEntropyLoss\<close>

text \<open>The Python literal \<open>10e-6\<close> is \<open>10 * 10^-6\<close>.\<close>

definition xent_epsilon :: real where
  "xent_epsilon = 10 / 10 ^ 6"

definition WeightedCrossEntropyLoss_calculate_loss :: "flags \<Rightarrow> matrix \<Rightarrow> matrix \<Rightarrow> real option" where
  "WeightedCrossEntropyLoss_calculate_loss FLAGS predictions labels =
     (let false_positive_punishment = false_positive_punishment FLAGS;
          false_negative_punishment = false_negative_punishment FLAGS;
          epsilon = xent_epsilon;
          float_labels = tf_cast_float32 labels
      in do {
        log_p \<leftarrow> tf_log (add_scalar predictions epsilon);
        log_q \<leftarrow> tf_log (add_scalar (scalar_sub 1 predictions) epsilon);
        let cross_entropy_loss =
          tf_add (tf_multiply (tf_scalar_mul false_negative_punishment float_labels) log_p)
                 (tf_multiply (tf_scalar_mul false_positive_punishment (scalar_sub 1 float_labels)) log_q);
        let cross_entropy_loss = tf_negative cross_entropy_loss;
        tf_reduce_mean (tf_reduce_sum_1 cross_entropy_loss)
      })"

definition CrossEntropyLoss_calculate_loss :: "matrix \<Rightarrow> matrix \<Rightarrow> real option" where
  "CrossEntropyLoss_calculate_loss predictions labels =
     (let epsilon = xent_epsilon;
          float_labels = tf_cast_float32 labels
      in do {
        log_p \<leftarrow> tf_log (add_scalar predictions epsilon);
        log_q \<leftarrow> tf_log (add_scalar (scalar_sub 1 predictions) epsilon);
        let cross_entropy_loss =
          tf_add (tf_multiply float_labels log_p)
                 (tf_multiply (scalar_sub 1 float_labels) log_q);
        let cross_entropy_loss = tf_negative cross_entropy_loss;
        tf_reduce_mean (tf_reduce_sum_1 cross_entropy_loss)
      })"

section \<open>HingeLoss\<close>

text \<open>\<open>tf.zeros(tf.shape(m))\<close> and \<open>tf.ones(tf.shape(m))\<close>.\<close>

definition tf_zeros_shape :: "matrix \<Rightarrow> matrix" where
  "tf_zeros_shape m = ew1 (\<lambda>_. 0) m"

definition tf_ones_shape :: "matrix \<Rightarrow> matrix" where
  "tf_ones_shape m = ew1 (\<lambda>_. 1) m"

definition HingeLoss_calculate_loss :: "matrix \<Rightarrow> matrix \<Rightarrow> real kwarg \<Rightarrow> real option" where
  "HingeLoss_calculate_loss predictions labels b_arg =
     (let b = kwarg_value 1.0 b_arg;
          float_labels = tf_cast_float32 labels;
          all_zeros = tf_zeros_shape float_labels;
          all_ones = tf_ones_shape float_labels;
          sign_labels = tf_subtract (tf_scalar_mul 2 float_labels) all_ones;
          hinge_loss = tf_maximum all_zeros
            (tf_subtract (tf_scalar_mul b all_ones) (tf_multiply sign_labels predictions))
      in tf_reduce_mean (tf_reduce_sum_1 hinge_loss))"

section \<open>RealHingeLoss\<close>

text \<open>\<open>tf.einsum("ij,ik->ijk", a, b)\<close>: for every example, the outer product of its row
  of \<open>a\<close> and its row of \<open>b\<close>.\<close>

definition einsum_ij_ik_ijk :: "matrix \<Rightarrow> matrix \<Rightarrow> tensor3" where
  "einsum_ij_ik_ijk a b = map2 (\<lambda>ra rb. map (\<lambda>x. map (\<lambda>y. x * y) rb) ra) a b"

text \<open>\<open>tf.expand_dims\<close> of a matrix at axis 2 (every cell becomes a list of one cell) and
  at axis 1 (every row becomes a list of one row).\<close>

definition tf_expand_dims_2 :: "matrix \<Rightarrow> tensor3" where
  "tf_expand_dims_2 m = map (map (\<lambda>x. [x])) m"

definition tf_expand_dims_1 :: "matrix \<Rightarrow> tensor3" where
  "tf_expand_dims_1 m = map (\<lambda>row. [row]) m"

text \<open>\<open>tf.reduce_sum(t, [1, 2])\<close> of a rank-3 tensor: one sum for every example.\<close>

definition tf_reduce_sum_12 :: "tensor3 \<Rightarrow> vector" where
  "tf_reduce_sum_12 t = map (\<lambda>m. sum_list (map sum_list m)) t"

text \<open>The tensor \<open>tf.reduce_sum(loss * mask, [1, 2])\<close> of \<open>RealHingeLoss.calculate_loss\<close>:
  the contribution of every example, before the mean over the batch.\<close>

definition RealHingeLoss_example_sums :: "matrix \<Rightarrow> matrix \<Rightarrow> real kwarg \<Rightarrow> vector" where
  "RealHingeLoss_example_sums predictions labels b_arg =
     (let b = kwarg_value 0.2 b_arg;
          float_labels = tf_cast_float32 labels;
          truth = float_labels;
          other = scalar_sub 1.0 float_labels;
          mask = einsum_ij_ik_ijk truth other;
          col_pred = tf_expand_dims_2 predictions;
          pred = tf_expand_dims_1 predictions;
          loss = map (map (map (max 0))) (ew3 (\<lambda>x y. x + y) (map (map (map (\<lambda>x. b - x))) col_pred) pred)
      in tf_reduce_sum_12 (ew3 (\<lambda>x y. x * y) loss mask))"

definition RealHingeLoss_calculate_loss :: "matrix \<Rightarrow> matrix \<Rightarrow> real kwarg \<Rightarrow> real option" where
  "RealHingeLoss_calculate_loss predictions labels b_arg =
     (let hinge_loss = tf_reduce_mean (RealHingeLoss_example_sums predictions labels b_arg)
      in hinge_loss)"

section \<open>SoftmaxLoss\<close>

text \<open>The Python literal \<open>10e-8\<close> is \<open>10 * 10^-8\<close>.\<close>

definition softmax_epsilon :: real where
  "softmax_epsilon = 10 / 10 ^ 8"

text \<open>\<open>tf.reduce_sum(m, 1, keep_dims=True)\<close>: the sum of every row, as a row of one cell.\<close>

definition tf_reduce_sum_1_keep_dims :: "matrix \<Rightarrow> matrix" where
  "tf_reduce_sum_1_keep_dims m = map (\<lambda>row. [sum_list row]) m"

text \<open>\<open>tf.maximum(m, c)\<close> for a Python number \<open>c\<close>.\<close>

definition maximum_scalar :: "matrix \<Rightarrow> real \<Rightarrow> matrix" where
  "maximum_scalar m c = ew1 (\<lambda>x. max x c) m"

text \<open>\<open>tf.div\<close> of two float tensors. A quotient by zero is not finite.\<close>

definition tf_div :: "matrix \<Rightarrow> matrix \<Rightarrow> matrix option" where
  "tf_div a b = (if \<forall>row \<in> set b. \<forall>x \<in> set row. x \<noteq> 0 then Some (ew2 (\<lambda>x y. x / y) a b) else None)"

text \<open>\<open>tf.nn.softmax\<close> of a matrix: in every row, the exponential of a cell over the sum
  of the exponentials of the row, computed exactly (an output is positive; in float32 it
  can underflow to 0).\<close>

definition softmax_row :: "vector \<Rightarrow> vector" where
  "softmax_row row = map (\<lambda>x. exp x / sum_list (map exp row)) row"

definition tf_nn_softmax :: "matrix \<Rightarrow> matrix" where
  "tf_nn_softmax m = map softmax_row m"

definition SoftmaxLoss_calculate_loss :: "matrix \<Rightarrow> matrix \<Rightarrow> real option" where
  "SoftmaxLoss_calculate_loss predictions labels =
     (let epsilon = softmax_epsilon;
          float_labels = tf_cast_float32 labels;
          label_rowsum = maximum_scalar (tf_reduce_sum_1_keep_dims float_labels) epsilon
      in do {
        norm_float_labels \<leftarrow> tf_div float_labels label_rowsum;
        let softmax_outputs = tf_nn_softmax predictions;
        log_softmax \<leftarrow> tf_log softmax_outputs;
        let softmax_loss = map uminus (tf_reduce_sum_1 (tf_multiply norm_float_labels log_softmax));
        tf_reduce_mean softmax_loss
      })"

section \<open>CosineHingeLoss\<close>

text \<open>\<open>tf.nn.l2_normalize(x, dim)\<close> multiplies every vector along \<open>dim\<close> by
  \<open>rsqrt(max(sum(square(x)), 1e-12))\<close>.\<close>

definition sum_squares :: "vector \<Rightarrow> real" where
  "sum_squares v = sum_list (map (\<lambda>x. x * x) v)"

definition l2_normalize_row :: "vector \<Rightarrow> vector" where
  "l2_normalize_row v = map (\<lambda>x. x * (1 / sqrt (max (sum_squares v) (1 / 10 ^ 12)))) v"

definition tf_nn_l2_normalize_1 :: "matrix \<Rightarrow> matrix" where
  "tf_nn_l2_normalize_1 m = map l2_normalize_row m"


definition dot :: "vector \<Rightarrow> vector \<Rightarrow> real" where
  "dot u v = sum_list (map2 (\<lambda>x y. x * y) u v)"

text \<open>The cells of \<open>tf.einsum("ik,jk->ij", a, b)\<close> and of \<open>tf.einsum("ik,ijk->ij", a, t)\<close>,
  for operands whose shapes fit.\<close>

definition einsum_ik_jk_ij :: "matrix \<Rightarrow> matrix \<Rightarrow> matrix" where
  "einsum_ik_jk_ij a b = map (\<lambda>u. map (\<lambda>v. dot u v) b) a"


text \<open>\<open>tf.einsum\<close> raises when an index has two sizes: for \<open>"ik,jk->ij"\<close> when a row of \<open>a\<close>
  and a row of \<open>b\<close> differ in length; for \<open>"ik,ijk->ij"\<close> when \<open>a\<close> and \<open>t\<close> differ in their
  number of examples, or a row of \<open>a\<close> and a vector of its example in \<open>t\<close> differ in length.\<close>

definition tf_einsum_ik_jk_ij :: "matrix \<Rightarrow> matrix \<Rightarrow> error + matrix" where
  "tf_einsum_ik_jk_ij a b =
     (if \<forall>u \<in> set a. \<forall>v \<in> set b. length u = length v
      then Inr (einsum_ik_jk_ij a b) else Inl TensorFlowError)"


definition sub_scalar :: "matrix \<Rightarrow> real \<Rightarrow> matrix" where
  "sub_scalar m c = ew1 (\<lambda>x. x - c) m"

text \<open>\<open>tf.reduce_min(m, axis=1, keep_dims=True)\<close>: the least cell of every row, as a row
  of one cell. The minimum of an empty row is \<open>+inf\<close>, written \<open>None\<close>; adding a number
  to it leaves it \<open>+inf\<close>, and no number is greater than it.\<close>

fun reduce_min_row :: "vector \<Rightarrow> real option" where
  "reduce_min_row [] = None"
| "reduce_min_row (x # xs) = Some (fold min xs x)"

definition tf_reduce_min_1_keep_dims :: "matrix \<Rightarrow> real option list list" where
  "tf_reduce_min_1_keep_dims m = map (\<lambda>row. [reduce_min_row row]) m"


text \<open>\<open>tf.cast(labels, tf.int32)\<close> drops the fractional part of a number. An int32 holds
  the integers from \<open>-2^31\<close> to \<open>2^31 - 1\<close>; a number whose integer part is outside that
  range is converted to the least int32, \<open>-2^31\<close>.\<close>

definition int32_of_real :: "real \<Rightarrow> int" where
  "int32_of_real x =
     (let t = (if 0 \<le> x then \<lfloor>x\<rfloor> else \<lceil>x\<rceil>)
      in if - (2 ^ 31) \<le> t \<and> t < 2 ^ 31 then t else - (2 ^ 31))"

definition tf_cast_int32 :: "matrix \<Rightarrow> int list list" where
  "tf_cast_int32 m = ew1 int32_of_real m"

text \<open>\<open>tf.unstack(m, num, axis=0)\<close> gives the rows of \<open>m\<close>, and raises when \<open>m\<close> does not
  have \<open>num\<close> rows.\<close>

definition tf_unstack :: "'a list \<Rightarrow> int \<Rightarrow> error + 'a list" where
  "tf_unstack m num = (if int (length m) = num then Inr m else Inl TensorFlowError)"

text \<open>\<open>tf.where(sample_label > 0)[:, 0]\<close>: the positions of the positive entries, in
  ascending order.\<close>

definition where_positive :: "int list \<Rightarrow> nat list" where
  "where_positive sample_label = filter (\<lambda>j. sample_label ! j > 0) [0..<length sample_label]"

text \<open>\<open>tf.tile(v, [n])\<close> repeats \<open>v\<close> \<open>n\<close> times and raises for a negative \<open>n\<close>;
  \<open>tf.gather(params, indices)\<close> reads \<open>params\<close> at every index and raises for an index
  out of range.\<close>

definition tf_tile :: "'a list \<Rightarrow> int \<Rightarrow> error + 'a list" where
  "tf_tile v n = (if n < 0 then Inl TensorFlowError else Inr (concat (replicate (nat n) v)))"

definition tf_gather :: "'a list \<Rightarrow> nat list \<Rightarrow> error + 'a list" where
  "tf_gather params indices =
     (if \<forall>i \<in> set indices. i < length params then Inr (map (\<lambda>i. params ! i) indices)
      else Inl TensorFlowError)"

text \<open>The body of the loop over \<open>sample_labels\<close>. \<open>rand_arrange\<close> is the tensor drawn by
  \<open>tf.random_uniform([num_classes], minval=0, maxval=num_classes, dtype=tf.int32)\<close>:
  the random source is an argument of the model.\<close>

definition gather_positive_sample :: "int \<Rightarrow> int list \<Rightarrow> nat list \<Rightarrow> error + nat list" where
  "gather_positive_sample n_classes sample_label rand_arrange =
     (let indices = where_positive sample_label
      in case tf_tile indices n_classes of
           Inl e \<Rightarrow> Inl e
         | Inr tiled \<Rightarrow>
             (let expanded_indices = take (nat n_classes) tiled
              in tf_gather expanded_indices rand_arrange))"

text \<open>The loop: \<open>random_uniform i\<close> is the draw of the iteration for example \<open>i\<close>.\<close>

fun sample_loop :: "int \<Rightarrow> (nat \<Rightarrow> nat list) \<Rightarrow> nat \<Rightarrow> int list list \<Rightarrow> error + nat list list" where
  "sample_loop n_classes random_uniform i [] = Inr []"
| "sample_loop n_classes random_uniform i (sample_label # rest) =
     (case gather_positive_sample n_classes sample_label (random_uniform i) of
        Inl e \<Rightarrow> Inl e
      | Inr positive_sample \<Rightarrow>
          (case sample_loop n_classes random_uniform (Suc i) rest of
             Inl e \<Rightarrow> Inl e
           | Inr positive_samples \<Rightarrow> Inr (positive_sample # positive_samples)))"

text \<open>\<open>tf.stack\<close> of the list the loop built. For an empty Python list it gives an empty
  float tensor, which \<open>tf.nn.embedding_lookup\<close> refuses as indices.\<close>

definition tf_stack :: "nat list list \<Rightarrow> error + nat list list" where
  "tf_stack vs = (if vs = [] then Inl TensorFlowError else Inr vs)"

definition CosineHingeLoss_positive_samples ::
  "flags \<Rightarrow> (nat \<Rightarrow> nat list) \<Rightarrow> matrix \<Rightarrow> error + nat list list" where
  "CosineHingeLoss_positive_samples FLAGS random_uniform labels =
     (let batch_size = batch_size FLAGS;
          num_classes = num_classes FLAGS;
          int_labels = tf_cast_int32 labels
      in case tf_unstack int_labels batch_size of
           Inl e \<Rightarrow> Inl e
         | Inr sample_labels \<Rightarrow>
             (case sample_loop num_classes random_uniform 0 sample_labels of
                Inl e \<Rightarrow> Inl e
              | Inr positive_samples \<Rightarrow> tf_stack positive_samples))"


text \<open>The tensors \<open>sim_pos\<close>, \<open>min_sim\<close> and \<open>mask_wrong\<close> of a call on which \<open>tf.einsum\<close> does
  not raise.\<close>

definition CosineHingeLoss_sim_pos :: "matrix \<Rightarrow> matrix \<Rightarrow> matrix" where
  "CosineHingeLoss_sim_pos predictions positives =
     (let normalized_predictions = tf_nn_l2_normalize_1 predictions;
          normalized_positives = tf_nn_l2_normalize_1 positives
      in einsum_ik_jk_ij normalized_predictions normalized_positives)"

definition CosineHingeLoss_min_sim :: "matrix \<Rightarrow> matrix \<Rightarrow> matrix \<Rightarrow> real option list list" where
  "CosineHingeLoss_min_sim predictions positives labels =
     (let sim_pos = CosineHingeLoss_sim_pos predictions positives;
          mask = tf_cast_float32 labels
      in ew1 (map_option (\<lambda>m. m + 1.0))
           (tf_reduce_min_1_keep_dims (tf_multiply (sub_scalar sim_pos 1.0) mask)))"





definition CosineHingeLoss_confidence :: "matrix \<Rightarrow> matrix \<Rightarrow> error + matrix" where
  "CosineHingeLoss_confidence predictions positives =
     (let normalized_predictions = tf_nn_l2_normalize_1 predictions;
          normalized_positives = tf_nn_l2_normalize_1 positives;
          sim_pos = tf_einsum_ik_jk_ij normalized_predictions normalized_positives
      in sim_pos)"

section \<open>Reference formulas\<close>

text \<open>The matrix with \<open>b\<close> rows and \<open>n\<close> columns whose cell at row \<open>i\<close> and column \<open>j\<close>
  is \<open>f i j\<close>.\<close>

definition tab :: "nat \<Rightarrow> nat \<Rightarrow> (nat \<Rightarrow> nat \<Rightarrow> 'a) \<Rightarrow> 'a list list" where
  "tab b n f = map (\<lambda>i. map (\<lambda>j. f i j) [0..<n]) [0..<b]"

text \<open>The weighted cross entropy as a formula over the cells of a batch of \<open>b\<close> examples
  and \<open>n\<close> classes, with the number added inside both logarithms as a parameter.\<close>

definition spec_weighted_xent_cell :: "real \<Rightarrow> real \<Rightarrow> real \<Rightarrow> real \<Rightarrow> real \<Rightarrow> real" where
  "spec_weighted_xent_cell eps fn_weight fp_weight p y =
     - (fn_weight * y * ln (p + eps) + fp_weight * (1 - y) * ln (1 - p + eps))"

definition spec_weighted_xent :: "real \<Rightarrow> flags \<Rightarrow> nat \<Rightarrow> nat \<Rightarrow> matrix \<Rightarrow> matrix \<Rightarrow> real" where
  "spec_weighted_xent eps FLAGS b n p y =
     (\<Sum>i<b. \<Sum>j<n. spec_weighted_xent_cell eps (false_negative_punishment FLAGS)
        (false_positive_punishment FLAGS) (p ! i ! j) (y ! i ! j)) / real b"

text \<open>The hinge loss as a formula over the cells, with the margin as a parameter.\<close>

definition spec_hinge :: "real \<Rightarrow> nat \<Rightarrow> nat \<Rightarrow> matrix \<Rightarrow> matrix \<Rightarrow> real" where
  "spec_hinge margin b n p y =
     (\<Sum>i<b. \<Sum>j<n. max 0 (margin - (2 * (y ! i ! j) - 1) * (p ! i ! j))) / real b"

text \<open>The softmax loss as a formula over the cells, with the number that guards the
  row sum of the labels as a parameter.\<close>

definition spec_softmax_loss :: "real \<Rightarrow> nat \<Rightarrow> nat \<Rightarrow> matrix \<Rightarrow> matrix \<Rightarrow> real" where
  "spec_softmax_loss eps b n p y =
     (\<Sum>i<b. - (\<Sum>j<n. (y ! i ! j / max (\<Sum>k<n. y ! i ! k) eps)
                        * ln (exp (p ! i ! j) / (\<Sum>k<n. exp (p ! i ! k))))) / real b"

text \<open>The least similarity among the classes labeled true: \<open>sims\<close> is the row of
  similarities of an example, \<open>labs\<close> its row of labels.\<close>

definition spec_min_true_similarity :: "vector \<Rightarrow> vector \<Rightarrow> real" where
  "spec_min_true_similarity sims labs = Min {sims ! j | j. j < length labs \<and> labs ! j = 1}"






section \<open>Properties\<close>

lemma tf_scalar_mul_one: "tf_scalar_mul 1 m = m"
  by (simp add: tf_scalar_mul_def ew1_def)

text \<open>
  C9. \<open>BaseLoss.calculate_loss\<close> returns no value: whatever the four arguments are, the
  call raises \<open>NotImplementedError\<close>.
\<close>

theorem C9_base_loss_not_implemented:
  "BaseLoss_calculate_loss predictions positives labels params = Inl NotImplementedError"
  by (simp add: BaseLoss_calculate_loss_def)

text \<open>
  C1. On every pair of predictions and labels, \<open>CrossEntropyLoss.calculate_loss\<close> returns
  what \<open>WeightedCrossEntropyLoss.calculate_loss\<close> returns when both punishment flags
  are 1.
\<close>

theorem C1_cross_entropy_is_weighted_with_unit_weights:
  "CrossEntropyLoss_calculate_loss predictions labels =
   WeightedCrossEntropyLoss_calculate_loss
     (FLAGS\<lparr>false_negative_punishment := 1, false_positive_punishment := 1\<rparr>) predictions labels"
  by (simp add: CrossEntropyLoss_calculate_loss_def WeightedCrossEntropyLoss_calculate_loss_def
      tf_scalar_mul_one)

subsection \<open>Tensors of a known shape\<close>

lemma bcast_same_length: "length xs = length ys \<Longrightarrow> bcast f xs ys = map2 f xs ys"
proof (induction f xs ys rule: bcast.induct)
  case (1 f x ys)
  then obtain y where "ys = [y]" by (cases ys) auto
  then show ?case by simp
qed auto

lemma bcast_singleton_right: "bcast f xs [y] = map (\<lambda>x. f x y) xs"
  by (induction f xs "[y]" rule: bcast.induct) auto

lemma bcast_singleton_left: "bcast f [x] ys = map (f x) ys"
  by simp

lemma has_shape_tab: "has_shape m b n \<Longrightarrow> m = tab b n (\<lambda>i j. m ! i ! j)"
  unfolding has_shape_def tab_def
  by (auto intro!: nth_equalityI)


lemma ew1_tab: "ew1 g (tab b n f) = tab b n (\<lambda>i j. g (f i j))"
  by (simp add: ew1_def tab_def comp_def)

lemma ew2_tab: "ew2 g (tab b n f) (tab b n h) = tab b n (\<lambda>i j. g (f i j) (h i j))"
  by (simp add: ew2_def tab_def bcast_same_length map2_map_map)

lemma reduce_sum_1_tab: "tf_reduce_sum_1 (tab b n f) = map (\<lambda>i. \<Sum>j<n. f i j) [0..<b]"
  by (simp add: tf_reduce_sum_1_def tab_def comp_def interv_sum_list_conv_sum_set_nat atLeast0LessThan)

lemma reduce_mean_upt:
  "tf_reduce_mean (map g [0..<b]) = (if b = 0 then None else Some ((\<Sum>i<b. g i) / real b))"
  by (simp add: tf_reduce_mean_def interv_sum_list_conv_sum_set_nat atLeast0LessThan)

lemma reduce_mean_Nil: "tf_reduce_mean [] = None"
  by (simp add: tf_reduce_mean_def)

lemma tf_log_tab:
  "tf_log (tab b n f) =
     (if \<forall>i<b. \<forall>j<n. 0 < f i j then Some (tab b n (\<lambda>i j. ln (f i j))) else None)"
  unfolding tf_log_def ew1_tab by (auto simp: tab_def)

lemmas tensor_eval = ew1_def ew2_def tf_cast_float32_def add_scalar_def scalar_sub_def tf_scalar_mul_def
  tf_multiply_def tf_add_def tf_subtract_def tf_maximum_def tf_negative_def tf_log_def
  tf_reduce_sum_1_def tf_reduce_mean_def

subsection \<open>The cross entropy losses\<close>

lemma wce_tab:
  "WeightedCrossEntropyLoss_calculate_loss FLAGS (tab b n p) (tab b n y) =
     (if 0 < b \<and> (\<forall>i<b. \<forall>j<n. 0 < p i j + xent_epsilon \<and> 0 < 1 - p i j + xent_epsilon)
      then Some ((\<Sum>i<b. \<Sum>j<n. spec_weighted_xent_cell xent_epsilon (false_negative_punishment FLAGS)
        (false_positive_punishment FLAGS) (p i j) (y i j)) / real b)
      else None)"
  unfolding WeightedCrossEntropyLoss_calculate_loss_def Let_def tf_cast_float32_def
    add_scalar_def scalar_sub_def tf_scalar_mul_def tf_multiply_def tf_add_def tf_negative_def
    ew1_tab ew2_tab tf_log_tab
  by (auto simp: ew1_tab ew2_tab reduce_sum_1_tab reduce_mean_upt spec_weighted_xent_cell_def reduce_mean_Nil)

text \<open>
  C2, as the code has it. For predictions and labels of shape \<open>[b, n]\<close>,
  \<open>WeightedCrossEntropyLoss.calculate_loss\<close> computes for every cell
  \<open>-(fn_weight * y * log(p + eps) + fp_weight * (1 - y) * log(1 - p + eps))\<close>, sums the
  cells of every example and takes the mean over the batch, where \<open>eps\<close> is the Python
  literal \<open>10e-6\<close>, which is \<open>10 / 10^6 = 1e-5\<close>. The result is that number when the batch
  is not empty and the argument of every logarithm is positive, and is not a finite
  number otherwise.
\<close>

theorem C2_weighted_cross_entropy_formula:
  assumes "has_shape predictions b n" and "has_shape labels b n"
  shows "WeightedCrossEntropyLoss_calculate_loss FLAGS predictions labels =
     (if 0 < b \<and> (\<forall>i<b. \<forall>j<n. 0 < predictions ! i ! j + 10 / 10 ^ 6
                                   \<and> 0 < 1 - predictions ! i ! j + 10 / 10 ^ 6)
      then Some (spec_weighted_xent (10 / 10 ^ 6) FLAGS b n predictions labels)
      else None)"
proof -
  have "WeightedCrossEntropyLoss_calculate_loss FLAGS predictions labels =
        WeightedCrossEntropyLoss_calculate_loss FLAGS
          (tab b n (\<lambda>i j. predictions ! i ! j)) (tab b n (\<lambda>i j. labels ! i ! j))"
    using assms has_shape_tab by metis
  then show ?thesis
    unfolding wce_tab spec_weighted_xent_def xent_epsilon_def by simp
qed

text \<open>The formula at one example and one class, prediction \<open>1/2\<close> and label \<open>1\<close>.\<close>

theorem C2_weighted_cross_entropy_formula_witness:
  "WeightedCrossEntropyLoss_calculate_loss
     \<lparr>false_negative_punishment = 1, false_positive_punishment = 1, num_classes = 1, batch_size = 1\<rparr>
     [[1 / 2]] [[1]] = Some (- ln (50001 / 100000))"
  using C2_weighted_cross_entropy_formula [of "[[1 / 2]]" 1 1 "[[1]]"
     "\<lparr>false_negative_punishment = 1, false_positive_punishment = 1, num_classes = 1, batch_size = 1\<rparr>"]
  by (simp add: has_shape_def spec_weighted_xent_def spec_weighted_xent_cell_def)

text \<open>C2 as the specification states it, with \<open>1e-6\<close> inside the logarithms, fails at that
  input: the code returns \<open>-ln (1/2 + 1e-5)\<close>, the formula gives \<open>-ln (1/2 + 1e-6)\<close>.\<close>

theorem C2_epsilon_counterexample:
  "WeightedCrossEntropyLoss_calculate_loss
     \<lparr>false_negative_punishment = 1, false_positive_punishment = 1, num_classes = 1, batch_size = 1\<rparr>
     [[1 / 2]] [[1]] = Some (- ln (50001 / 100000))
   \<and> spec_weighted_xent (1 / 10 ^ 6)
     \<lparr>false_negative_punishment = 1, false_positive_punishment = 1, num_classes = 1, batch_size = 1\<rparr>
     1 1 [[1 / 2]] [[1]] = - ln (500001 / 1000000)
   \<and> WeightedCrossEntropyLoss_calculate_loss
     \<lparr>false_negative_punishment = 1, false_positive_punishment = 1, num_classes = 1, batch_size = 1\<rparr>
     [[1 / 2]] [[1]]
   \<noteq> Some (spec_weighted_xent (1 / 10 ^ 6)
     \<lparr>false_negative_punishment = 1, false_positive_punishment = 1, num_classes = 1, batch_size = 1\<rparr>
     1 1 [[1 / 2]] [[1]])"
  by (simp add: WeightedCrossEntropyLoss_calculate_loss_def xent_epsilon_def tensor_eval
      spec_weighted_xent_def spec_weighted_xent_cell_def)

text \<open>C1 at one example and one class: both losses are \<open>-ln (1/2 + 1e-5)\<close>.\<close>

theorem C1_cross_entropy_is_weighted_with_unit_weights_witness:
  "CrossEntropyLoss_calculate_loss [[1 / 2]] [[1]] =
   WeightedCrossEntropyLoss_calculate_loss
     \<lparr>false_negative_punishment = 1, false_positive_punishment = 1, num_classes = 1, batch_size = 1\<rparr>
     [[1 / 2]] [[1]]
   \<and> CrossEntropyLoss_calculate_loss [[1 / 2]] [[1]] = Some (- ln (50001 / 100000))"
  using C1_cross_entropy_is_weighted_with_unit_weights [of "[[1 / 2]]" "[[1]]"
     "\<lparr>false_negative_punishment = 1, false_positive_punishment = 1, num_classes = 1, batch_size = 1\<rparr>"]
  by (simp add: WeightedCrossEntropyLoss_calculate_loss_def xent_epsilon_def tensor_eval)

subsection \<open>The hinge loss\<close>

lemma hinge_tab:
  "HingeLoss_calculate_loss (tab b n p) (tab b n y) b_arg =
     (if 0 < b
      then Some ((\<Sum>i<b. \<Sum>j<n. max 0 (kwarg_value 1 b_arg - (2 * y i j - 1) * p i j)) / real b)
      else None)"
  unfolding HingeLoss_calculate_loss_def Let_def tf_cast_float32_def tf_zeros_shape_def tf_ones_shape_def
    tf_subtract_def tf_scalar_mul_def tf_multiply_def tf_maximum_def
    ew1_tab ew2_tab
  by (auto simp: reduce_sum_1_tab reduce_mean_upt reduce_mean_Nil)

text \<open>
  C7. For predictions and labels of shape \<open>[b, n]\<close>, \<open>HingeLoss.calculate_loss\<close> with
  margin \<open>b\<close> computes for every cell \<open>max(0, b - (2y - 1) * p)\<close>, sums the cells of every
  example and takes the mean over the batch (which is not a finite number for an empty
  batch); a call that leaves \<open>b\<close> out is a call with \<open>b = 1.0\<close>; and for predictions
  \<open>[[0.5, -0.5]]\<close>, labels \<open>[[1, 0]]\<close> and \<open>b = 1.0\<close> the result is \<open>1.0\<close>.
\<close>

theorem C7_hinge_loss_formula:
  "(has_shape predictions b n \<and> has_shape labels b n \<longrightarrow>
      HingeLoss_calculate_loss predictions labels (Given margin) =
        (if 0 < b then Some (spec_hinge margin b n predictions labels) else None))
   \<and> HingeLoss_calculate_loss predictions labels Default =
       HingeLoss_calculate_loss predictions labels (Given 1.0)
   \<and> HingeLoss_calculate_loss [[0.5, - 0.5]] [[1, 0]] (Given 1.0) = Some 1.0"
proof (intro conjI impI)
  assume "has_shape predictions b n \<and> has_shape labels b n"
  then have "HingeLoss_calculate_loss predictions labels (Given margin) =
        HingeLoss_calculate_loss (tab b n (\<lambda>i j. predictions ! i ! j))
          (tab b n (\<lambda>i j. labels ! i ! j)) (Given margin)"
    using has_shape_tab by metis
  then show "HingeLoss_calculate_loss predictions labels (Given margin) =
        (if 0 < b then Some (spec_hinge margin b n predictions labels) else None)"
    unfolding hinge_tab spec_hinge_def by simp
next
  show "HingeLoss_calculate_loss predictions labels Default =
       HingeLoss_calculate_loss predictions labels (Given 1.0)"
    by (simp add: HingeLoss_calculate_loss_def)
next
  show "HingeLoss_calculate_loss [[0.5, - 0.5]] [[1, 0]] (Given 1.0) = Some 1.0"
    by (simp add: HingeLoss_calculate_loss_def tf_zeros_shape_def tf_ones_shape_def tensor_eval)
qed

text \<open>The formula at two examples and two classes: the costs are \<open>0, 0\<close> and \<open>1, 3/4\<close>.\<close>

theorem C7_hinge_loss_formula_witness:
  "HingeLoss_calculate_loss [[2, - 3], [0, 1 / 4]] [[1, 0], [0, 1]] (Given 1) = Some (7 / 8)
   \<and> HingeLoss_calculate_loss [[2, - 3], [0, 1 / 4]] [[1, 0], [0, 1]] Default = Some (7 / 8)"
  using C7_hinge_loss_formula [of "[[2, - 3], [0, 1 / 4]]" 2 2 "[[1, 0], [0, 1]]" 1]
  by (simp add: has_shape_def spec_hinge_def lessThan_Suc numeral_2_eq_2)

subsection \<open>The softmax loss\<close>

lemma softmax_tab:
  "tf_nn_softmax (tab b n p) = tab b n (\<lambda>i j. exp (p i j) / (\<Sum>k<n. exp (p i k)))"
  by (simp add: tf_nn_softmax_def softmax_row_def tab_def comp_def
      interv_sum_list_conv_sum_set_nat atLeast0LessThan)

lemma sum_exp_pos: "j < (n::nat) \<Longrightarrow> 0 < (\<Sum>k<n. exp (f k :: real))"
  by (rule sum_pos) auto

lemma norm_labels_tab:
  assumes "0 < eps"
  shows "tf_div (tab b n y) (maximum_scalar (tf_reduce_sum_1_keep_dims (tab b n y)) eps) =
     Some (tab b n (\<lambda>i j. y i j / max (\<Sum>k<n. y i k) eps))"
proof -
  have rs: "maximum_scalar (tf_reduce_sum_1_keep_dims (tab b n y)) eps =
        map (\<lambda>i. [max (\<Sum>k<n. y i k) eps]) [0..<b]"
    by (simp add: maximum_scalar_def tf_reduce_sum_1_keep_dims_def ew1_def tab_def comp_def
        interv_sum_list_conv_sum_set_nat atLeast0LessThan)
  have nz: "\<forall>row \<in> set (map (\<lambda>i. [max (\<Sum>k<n. y i k) eps]) [0..<b]). \<forall>x \<in> set row. x \<noteq> 0"
    using assms by auto
  show ?thesis
    unfolding rs tf_div_def using nz
    by (simp add: ew2_def tab_def bcast_same_length map2_map_map bcast_singleton_right comp_def)
qed

lemma softmax_loss_tab:
  "SoftmaxLoss_calculate_loss (tab b n p) (tab b n y) =
     (if 0 < b
      then Some ((\<Sum>i<b. - (\<Sum>j<n. (y i j / max (\<Sum>k<n. y i k) softmax_epsilon)
                        * ln (exp (p i j) / (\<Sum>k<n. exp (p i k))))) / real b)
      else None)"
proof -
  have eps: "0 < softmax_epsilon" by (simp add: softmax_epsilon_def)
  have pos: "\<forall>i<b. \<forall>j<n. 0 < exp (p i j) / (\<Sum>k<n. exp (p i k))"
    using sum_exp_pos by (auto intro!: divide_pos_pos)
  show ?thesis
    unfolding SoftmaxLoss_calculate_loss_def Let_def tf_cast_float32_def
      norm_labels_tab [OF eps] softmax_tab tf_log_tab tf_multiply_def
    using pos
    by (simp add: ew2_tab reduce_sum_1_tab reduce_mean_Nil comp_def
        tf_reduce_mean_def interv_sum_list_conv_sum_set_nat atLeast0LessThan sum_negf)
qed

text \<open>
  C5, as the code has it. For predictions and labels of shape \<open>[b, n]\<close>,
  \<open>SoftmaxLoss.calculate_loss\<close> divides every label by \<open>max(sum of its row, eps)\<close>, applies
  the softmax to every row of the predictions, computes for every example
  \<open>-sum_j (y'[j] * log(softmax(p)[j]))\<close> and returns the mean over the batch (not a finite
  number for an empty batch), where \<open>eps\<close> is the Python literal \<open>10e-8\<close>, which is
  \<open>10 / 10^8 = 1e-7\<close>.
\<close>

theorem C5_softmax_loss_formula:
  assumes "has_shape predictions b n" and "has_shape labels b n"
  shows "SoftmaxLoss_calculate_loss predictions labels =
     (if 0 < b then Some (spec_softmax_loss (10 / 10 ^ 8) b n predictions labels) else None)"
proof -
  have "SoftmaxLoss_calculate_loss predictions labels =
        SoftmaxLoss_calculate_loss (tab b n (\<lambda>i j. predictions ! i ! j))
          (tab b n (\<lambda>i j. labels ! i ! j))"
    using assms has_shape_tab by metis
  then show ?thesis
    unfolding softmax_loss_tab spec_softmax_loss_def softmax_epsilon_def by simp
qed

text \<open>The formula at one example with two classes, the first one labeled.\<close>

theorem C5_softmax_loss_formula_witness:
  "SoftmaxLoss_calculate_loss [[0, 0]] [[1, 0]] = Some (- ln (1 / 2))"
  using C5_softmax_loss_formula [of "[[0, 0]]" 1 2 "[[1, 0]]"]
  by (simp add: has_shape_def spec_softmax_loss_def lessThan_Suc numeral_2_eq_2)

text \<open>C5 as the specification states it, with \<open>1e-8\<close> as the guard, fails for a label row
  whose sum lies between the two numbers: the code divides the label \<open>5e-8\<close> by \<open>1e-7\<close>,
  the formula divides it by \<open>5e-8\<close>.\<close>

theorem C5_epsilon_counterexample:
  "SoftmaxLoss_calculate_loss [[0, 0]] [[5 / 10 ^ 8, 0]] = Some (ln 2 / 2)
   \<and> spec_softmax_loss (1 / 10 ^ 8) 1 2 [[0, 0]] [[5 / 10 ^ 8, 0]] = ln 2
   \<and> SoftmaxLoss_calculate_loss [[0, 0]] [[5 / 10 ^ 8, 0]]
       \<noteq> Some (spec_softmax_loss (1 / 10 ^ 8) 1 2 [[0, 0]] [[5 / 10 ^ 8, 0]])"
  by (simp add: SoftmaxLoss_calculate_loss_def softmax_epsilon_def tensor_eval
      tf_div_def maximum_scalar_def tf_reduce_sum_1_keep_dims_def tf_nn_softmax_def softmax_row_def
      spec_softmax_loss_def lessThan_Suc numeral_2_eq_2 ln_div)

subsection \<open>The pairwise hinge loss\<close>

lemma real_hinge_example_sums_tab:
  "RealHingeLoss_example_sums (tab b n p) (tab b n y) b_arg =
     map (\<lambda>i. \<Sum>j<n. \<Sum>k<n. max 0 (kwarg_value 0.2 b_arg - p i j + p i k) * (y i j * (1 - y i k)))
       [0..<b]"
  unfolding RealHingeLoss_example_sums_def Let_def tf_cast_float32_def scalar_sub_def ew1_tab
  by (simp add: tab_def einsum_ij_ik_ijk_def tf_expand_dims_1_def tf_expand_dims_2_def ew3_def
      tf_reduce_sum_12_def bcast_same_length map2_map_map bcast_singleton_right comp_def
      interv_sum_list_conv_sum_set_nat atLeast0LessThan)

text \<open>
  C8. For predictions and labels of shape \<open>[b, n]\<close> and any margin, an example whose labels
  are all 0 or all 1 contributes 0 to \<open>tf.reduce_sum(loss * mask, [1, 2])\<close>, the tensor
  of \<open>b\<close> numbers whose mean \<open>RealHingeLoss.calculate_loss\<close> returns.
\<close>

theorem C8_real_hinge_uniform_row_contributes_zero:
  assumes "has_shape predictions b n" and "has_shape labels b n" and "i < b"
    and "(\<forall>y \<in> set (labels ! i). y = 0) \<or> (\<forall>y \<in> set (labels ! i). y = 1)"
  shows "RealHingeLoss_example_sums predictions labels b_arg ! i = 0
    \<and> length (RealHingeLoss_example_sums predictions labels b_arg) = b
    \<and> RealHingeLoss_calculate_loss predictions labels b_arg =
        Some (sum_list (RealHingeLoss_example_sums predictions labels b_arg) / real b)"
proof -
  have len: "length (labels ! i) = n" "length labels = b"
    using assms(2,3) by (auto simp: has_shape_def)
  have zero: "\<And>j k. j < n \<Longrightarrow> k < n \<Longrightarrow> labels ! i ! j * (1 - labels ! i ! k) = 0"
    using assms(4) len by (metis mult_zero_left mult_zero_right nth_mem diff_self)
  have eq: "RealHingeLoss_example_sums predictions labels b_arg =
        RealHingeLoss_example_sums (tab b n (\<lambda>i j. predictions ! i ! j))
          (tab b n (\<lambda>i j. labels ! i ! j)) b_arg"
    using assms(1,2) has_shape_tab by metis
  have sums: "(\<Sum>j<n. \<Sum>k<n. max 0 (m - P j + P k) * (labels ! i ! j * (1 - labels ! i ! k))) = 0"
    for m :: real and P
  proof (intro sum.neutral ballI)
    fix j k assume "j \<in> {..<n}" and "k \<in> {..<n}"
    then have "labels ! i ! j * (1 - labels ! i ! k) = 0"
      using zero by simp
    then show "max 0 (m - P j + P k) * (labels ! i ! j * (1 - labels ! i ! k)) = 0"
      by (simp only: mult_zero_right)
  qed
  show ?thesis
    unfolding RealHingeLoss_calculate_loss_def Let_def eq real_hinge_example_sums_tab
    using assms(3) sums by (simp add: tf_reduce_mean_def)
qed

text \<open>Two examples: the first has no positive label and contributes 0, the second has
  one positive and one negative class and contributes \<open>max(0, 0.2 - 0 + 3)\<close>.\<close>

theorem C8_real_hinge_uniform_row_contributes_zero_witness:
  "RealHingeLoss_example_sums [[1, 2], [0, 3]] [[0, 0], [1, 0]] Default ! 0 = 0
   \<and> RealHingeLoss_example_sums [[1, 2], [0, 3]] [[0, 0], [1, 0]] Default ! 1 = 16 / 5
   \<and> RealHingeLoss_calculate_loss [[1, 2], [0, 3]] [[0, 0], [1, 0]] Default = Some (8 / 5)"
  using C8_real_hinge_uniform_row_contributes_zero [of "[[1, 2], [0, 3]]" 2 2 "[[0, 0], [1, 0]]" 0 Default]
  by (simp add: has_shape_def RealHingeLoss_example_sums_def tensor_eval ew3_def
      einsum_ij_ik_ijk_def tf_expand_dims_1_def tf_expand_dims_2_def tf_reduce_sum_12_def)

subsection \<open>The positive resampling of CosineHingeLoss\<close>

lemma where_positive_set:
  "set (where_positive row) = {j. j < length row \<and> row ! j > 0}"
  by (auto simp: where_positive_def)

lemma set_concat_replicate_subset: "set (concat (replicate k xs)) \<subseteq> set xs"
  by (induction k) auto

lemma length_concat_replicate: "length (concat (replicate k xs)) = k * length xs"
  by (induction k) auto

lemma gather_positive_sample_ok:
  assumes "0 < nc" and "length r = nat nc" and "\<forall>x \<in> set r. x < nat nc"
    and "\<exists>j<length row. row ! j > 0"
  shows "\<exists>s. gather_positive_sample nc row r = Inr s \<and> length s = nat nc
     \<and> (\<forall>j \<in> set s. j < length row \<and> row ! j > 0)"
proof -
  let ?idx = "where_positive row"
  let ?exp = "take (nat nc) (concat (replicate (nat nc) ?idx))"
  have "set ?idx \<noteq> {}"
    using assms(4) by (auto simp: where_positive_set)
  then have "1 \<le> length ?idx"
    by (cases ?idx) auto
  then have "nat nc * 1 \<le> nat nc * length ?idx"
    by (rule mult_le_mono2)
  then have len: "length ?exp = nat nc"
    by (simp add: length_concat_replicate)
  have sub: "set ?exp \<subseteq> {j. j < length row \<and> row ! j > 0}"
    using set_take_subset set_concat_replicate_subset where_positive_set by fast
  have inr: "\<forall>i \<in> set r. i < length ?exp"
    using assms(3) len by simp
  have g: "gather_positive_sample nc row r = Inr (map (\<lambda>i. ?exp ! i) r)"
    unfolding gather_positive_sample_def tf_tile_def tf_gather_def Let_def
    using assms(1) inr by simp
  have "\<forall>j \<in> set (map (\<lambda>i. ?exp ! i) r). j < length row \<and> row ! j > 0"
  proof
    fix j assume "j \<in> set (map (\<lambda>i. ?exp ! i) r)"
    then obtain i where "i \<in> set r" and j: "j = ?exp ! i" by auto
    then have "i < length ?exp" using assms(3) len by simp
    then have "j \<in> set ?exp" unfolding j by (rule nth_mem)
    then show "j < length row \<and> row ! j > 0" using sub by blast
  qed
  then show ?thesis using g assms(2) by simp
qed

lemma gather_positive_sample_fails:
  assumes "0 < nc" and "length r = nat nc" and "\<forall>j<length row. \<not> row ! j > 0"
  shows "gather_positive_sample nc row r = Inl TensorFlowError"
proof -
  have "where_positive row = []"
    using assms(3) by (auto simp: where_positive_def filter_empty_conv)
  moreover have "r \<noteq> []" using assms(1,2) by auto
  ultimately show ?thesis
    using assms(1) by (auto simp: gather_positive_sample_def tf_tile_def tf_gather_def)
qed

lemma gather_positive_sample_error:
  "gather_positive_sample nc row r = Inl e \<Longrightarrow> e = TensorFlowError"
  by (auto simp: gather_positive_sample_def tf_tile_def tf_gather_def Let_def split: if_splits)

lemma sample_loop_error:
  "sample_loop nc rnd i rows = Inl e \<Longrightarrow> e = TensorFlowError"
  by (induction rows arbitrary: i e)
     (auto split: sum.splits dest: gather_positive_sample_error)

lemma sample_loop_ok:
  assumes "0 < nc"
    and "\<forall>k<length rows. length (rnd (i + k)) = nat nc \<and> (\<forall>x \<in> set (rnd (i + k)). x < nat nc)"
    and "\<forall>row \<in> set rows. \<exists>j<length row. row ! j > 0"
  shows "\<exists>ss. sample_loop nc rnd i rows = Inr ss \<and> length ss = length rows
     \<and> (\<forall>k<length rows. length (ss ! k) = nat nc
           \<and> (\<forall>j \<in> set (ss ! k). j < length (rows ! k) \<and> rows ! k ! j > 0))"
  using assms
proof (induction rows arbitrary: i)
  case Nil
  then show ?case by simp
next
  case (Cons row rows)
  have d0: "length (rnd i) = nat nc \<and> (\<forall>x \<in> set (rnd i). x < nat nc)"
    using Cons.prems(2) by (metis add.right_neutral length_greater_0_conv list.distinct(1))
  have "\<exists>j<length row. row ! j > 0" using Cons.prems(3) by simp
  then obtain s where s: "gather_positive_sample nc row (rnd i) = Inr s" "length s = nat nc"
      "\<forall>j \<in> set s. j < length row \<and> row ! j > 0"
    using gather_positive_sample_ok [OF Cons.prems(1)] d0 by blast
  have "\<forall>k<length rows. length (rnd (Suc i + k)) = nat nc \<and> (\<forall>x \<in> set (rnd (Suc i + k)). x < nat nc)"
  proof (intro allI impI)
    fix k assume "k < length rows"
    then have "Suc k < length (row # rows)" by simp
    then show "length (rnd (Suc i + k)) = nat nc \<and> (\<forall>x \<in> set (rnd (Suc i + k)). x < nat nc)"
      using Cons.prems(2) by (metis add_Suc_shift)
  qed
  moreover have "\<forall>row \<in> set rows. \<exists>j<length row. row ! j > 0"
    using Cons.prems(3) by simp
  ultimately obtain ss where ss: "sample_loop nc rnd (Suc i) rows = Inr ss" "length ss = length rows"
      "\<forall>k<length rows. length (ss ! k) = nat nc
           \<and> (\<forall>j \<in> set (ss ! k). j < length (rows ! k) \<and> rows ! k ! j > 0)"
    using Cons.IH [OF Cons.prems(1)] by blast
  have "\<forall>k<length (row # rows). length ((s # ss) ! k) = nat nc
           \<and> (\<forall>j \<in> set ((s # ss) ! k). j < length ((row # rows) ! k) \<and> (row # rows) ! k ! j > 0)"
  proof (intro allI impI)
    fix k assume "k < length (row # rows)"
    then show "length ((s # ss) ! k) = nat nc
           \<and> (\<forall>j \<in> set ((s # ss) ! k). j < length ((row # rows) ! k) \<and> (row # rows) ! k ! j > 0)"
      using s ss by (cases k) auto
  qed
  then show ?case using s(1) ss(1,2) by simp
qed

lemma sample_loop_fails:
  assumes "0 < nc"
    and "\<forall>k<length rows. length (rnd (i + k)) = nat nc"
    and "\<exists>row \<in> set rows. \<forall>j<length row. \<not> row ! j > 0"
  shows "sample_loop nc rnd i rows = Inl TensorFlowError"
  using assms
proof (induction rows arbitrary: i)
  case Nil
  then show ?case by simp
next
  case (Cons row rows)
  have d0: "length (rnd i) = nat nc"
    using Cons.prems(2) by (metis add.right_neutral length_greater_0_conv list.distinct(1))
  show ?case
  proof (cases "gather_positive_sample nc row (rnd i)")
    case (Inl e)
    then show ?thesis using gather_positive_sample_error by fastforce
  next
    case (Inr s)
    then have "\<not> (\<forall>j<length row. \<not> row ! j > 0)"
      using gather_positive_sample_fails [OF Cons.prems(1) d0] by fastforce
    then have ex: "\<exists>row \<in> set rows. \<forall>j<length row. \<not> row ! j > 0"
      using Cons.prems(3) by auto
    have "\<forall>k<length rows. length (rnd (Suc i + k)) = nat nc"
    proof (intro allI impI)
      fix k assume "k < length rows"
      then have "Suc k < length (row # rows)" by simp
      then show "length (rnd (Suc i + k)) = nat nc"
        using Cons.prems(2) by (metis add_Suc_shift)
    qed
    then have "sample_loop nc rnd (Suc i) rows = Inl TensorFlowError"
      using Cons.IH [OF Cons.prems(1) _ ex] by blast
    then show ?thesis using Inr by simp
  qed
qed

lemma cast_int32_positive: "0 < int32_of_real x \<longleftrightarrow> 1 \<le> x \<and> x < 2 ^ 31"
proof (cases "0 \<le> x")
  case True
  have "\<lfloor>x\<rfloor> < 2 ^ 31 \<longleftrightarrow> x < 2 ^ 31"
    using floor_less_iff [of x "2 ^ 31"] by simp
  moreover have "0 < \<lfloor>x\<rfloor> \<longleftrightarrow> 1 \<le> x"
    by (rule zero_less_floor)
  ultimately show ?thesis
    using True by (auto simp: int32_of_real_def Let_def)
next
  case False
  then have "\<lceil>x\<rceil> \<le> 0" by (simp add: ceiling_le_zero)
  then show ?thesis
    using False by (auto simp: int32_of_real_def Let_def)
qed

lemma cast_int32_row_positive:
  "j < length row \<Longrightarrow> 0 < map int32_of_real row ! j \<longleftrightarrow> 1 \<le> row ! j \<and> row ! j < 2 ^ 31"
  using cast_int32_positive by simp

lemma cast_int32_rows: "tf_cast_int32 labels = map (map int32_of_real) labels"
  by (simp add: tf_cast_int32_def ew1_def)

lemma positive_samples_ok:
  assumes "0 < num_classes FLAGS" and "0 < batch_size FLAGS"
    and "batch_size FLAGS = int (length labels)"
    and "\<forall>i<length labels. length (random_uniform i) = nat (num_classes FLAGS)
           \<and> (\<forall>r \<in> set (random_uniform i). r < nat (num_classes FLAGS))"
    and pos: "\<forall>row \<in> set labels. \<exists>y \<in> set row. 1 \<le> y \<and> y < 2 ^ 31"
  shows "\<exists>samples. CosineHingeLoss_positive_samples FLAGS random_uniform labels = Inr samples
               \<and> has_shape samples (length labels) (nat (num_classes FLAGS))
               \<and> (\<forall>i<length labels. \<forall>j \<in> set (samples ! i).
                     j < length (labels ! i) \<and> 1 \<le> labels ! i ! j \<and> labels ! i ! j < 2 ^ 31
                     \<and> 0 < tf_cast_int32 labels ! i ! j)"
proof -
  let ?rows = "tf_cast_int32 labels"
  have rows: "?rows = map (map int32_of_real) labels"
    by (rule cast_int32_rows)
  have len: "length ?rows = length labels"
    by (simp add: rows)
  have unstack: "tf_unstack ?rows (batch_size FLAGS) = Inr ?rows"
    using assms(3) len by (simp add: tf_unstack_def)
  have draws: "\<forall>k<length ?rows. length (random_uniform (0 + k)) = nat (num_classes FLAGS)
           \<and> (\<forall>x \<in> set (random_uniform (0 + k)). x < nat (num_classes FLAGS))"
    using assms(4) len by simp
  have nonempty: "labels \<noteq> []"
    using assms(2,3) by auto
  have "\<forall>row \<in> set ?rows. \<exists>j<length row. row ! j > 0"
  proof
    fix row assume "row \<in> set ?rows"
    then obtain lrow where lrow: "lrow \<in> set labels" and row: "row = map int32_of_real lrow"
      unfolding rows by auto
    then obtain y where "y \<in> set lrow" and y: "1 \<le> y \<and> y < 2 ^ 31" using pos by blast
    then obtain j where "j < length lrow" and "lrow ! j = y" by (auto simp: in_set_conv_nth)
    then show "\<exists>j<length row. row ! j > 0"
      using y row cast_int32_row_positive [of j lrow] by auto
  qed
  then obtain ss where ss: "sample_loop (num_classes FLAGS) random_uniform 0 ?rows = Inr ss"
      "length ss = length ?rows"
      "\<forall>k<length ?rows. length (ss ! k) = nat (num_classes FLAGS)
         \<and> (\<forall>j \<in> set (ss ! k). j < length (?rows ! k) \<and> ?rows ! k ! j > 0)"
    using sample_loop_ok [OF assms(1) draws] by blast
  have "ss \<noteq> []" using ss(2) len nonempty by auto
  then have res: "CosineHingeLoss_positive_samples FLAGS random_uniform labels = Inr ss"
    using unstack ss(1) by (simp add: CosineHingeLoss_positive_samples_def tf_stack_def)
  have shape: "has_shape ss (length labels) (nat (num_classes FLAGS))"
    unfolding has_shape_def using ss(2,3) len by (auto simp: in_set_conv_nth)
  have "\<forall>i<length labels. \<forall>j \<in> set (ss ! i).
          j < length (labels ! i) \<and> 1 \<le> labels ! i ! j \<and> labels ! i ! j < 2 ^ 31
          \<and> 0 < ?rows ! i ! j"
  proof (intro allI impI ballI)
    fix i j assume i: "i < length labels" and j: "j \<in> set (ss ! i)"
    have ri: "?rows ! i = map int32_of_real (labels ! i)" using i by (simp add: rows)
    have a: "j < length (?rows ! i)" and b: "?rows ! i ! j > 0" using ss(3) i j len by simp_all
    have jl: "j < length (labels ! i)" using a unfolding ri by simp
    have "1 \<le> labels ! i ! j \<and> labels ! i ! j < 2 ^ 31"
      using b cast_int32_row_positive [OF jl] unfolding ri by blast
    then show "j < length (labels ! i) \<and> 1 \<le> labels ! i ! j \<and> labels ! i ! j < 2 ^ 31
          \<and> 0 < ?rows ! i ! j"
      using jl b by simp
  qed
  then show ?thesis using res shape by blast
qed

lemma positive_samples_fails:
  assumes "0 < num_classes FLAGS"
    and "batch_size FLAGS = int (length labels)"
    and "\<forall>i<length labels. length (random_uniform i) = nat (num_classes FLAGS)"
    and "\<exists>row \<in> set labels. \<forall>y \<in> set row. y < 1 \<or> 2 ^ 31 \<le> y"
  shows "CosineHingeLoss_positive_samples FLAGS random_uniform labels = Inl TensorFlowError"
proof -
  let ?rows = "tf_cast_int32 labels"
  have rows: "?rows = map (map int32_of_real) labels"
    by (rule cast_int32_rows)
  have len: "length ?rows = length labels"
    by (simp add: rows)
  have unstack: "tf_unstack ?rows (batch_size FLAGS) = Inr ?rows"
    using assms(2) len by (simp add: tf_unstack_def)
  obtain lrow where lrow: "lrow \<in> set labels" and none: "\<forall>y \<in> set lrow. y < 1 \<or> 2 ^ 31 \<le> y"
    using assms(4) by blast
  have "map int32_of_real lrow \<in> set ?rows" using lrow unfolding rows by simp
  moreover have "\<forall>j<length (map int32_of_real lrow). \<not> map int32_of_real lrow ! j > 0"
  proof (intro allI impI)
    fix j assume "j < length (map int32_of_real lrow)"
    then have j: "j < length lrow" by simp
    then have "lrow ! j < 1 \<or> 2 ^ 31 \<le> lrow ! j" using none by simp
    then show "\<not> map int32_of_real lrow ! j > 0"
      using cast_int32_row_positive [OF j] by auto
  qed
  ultimately have ex: "\<exists>row \<in> set ?rows. \<forall>j<length row. \<not> row ! j > 0" by blast
  have "\<forall>k<length ?rows. length (random_uniform (0 + k)) = nat (num_classes FLAGS)"
    using assms(3) len by simp
  then have "sample_loop (num_classes FLAGS) random_uniform 0 ?rows = Inl TensorFlowError"
    using sample_loop_fails [OF assms(1) _ ex] by blast
  then show ?thesis
    using unstack by (simp add: CosineHingeLoss_positive_samples_def)
qed

text \<open>
  C10. The flags are those of a run: \<open>num_classes\<close> and \<open>batch_size\<close> are positive and
  \<open>batch_size\<close> is the number of rows of the labels; every \<open>tf.random_uniform\<close> draw is a
  list of \<open>num_classes\<close> numbers below \<open>num_classes\<close>. An entry \<open>y\<close> of the labels is positive
  after \<open>tf.cast(labels, tf.int32)\<close> when \<open>1 <= y < 2^31\<close>; for labels 0 and 1 that is an
  entry 1. When every row of the labels has such an entry, the resampling returns one
  list of \<open>num_classes\<close> indices for every example, and every index is a position of a
  positive label of that example's row. When a row has no such entry (an all-zero row),
  the list of its positive positions is empty, \<open>tf.gather\<close> reads out of range and the
  resampling raises.
\<close>

theorem C10_positive_resampling_needs_a_positive_label:
  assumes "0 < num_classes FLAGS" and "0 < batch_size FLAGS"
    and "batch_size FLAGS = int (length labels)"
    and "\<forall>i<length labels. length (random_uniform i) = nat (num_classes FLAGS)
           \<and> (\<forall>r \<in> set (random_uniform i). r < nat (num_classes FLAGS))"
  shows "((\<forall>row \<in> set labels. \<exists>y \<in> set row. 1 \<le> y \<and> y < 2 ^ 31) \<longrightarrow>
            (\<exists>samples. CosineHingeLoss_positive_samples FLAGS random_uniform labels = Inr samples
               \<and> has_shape samples (length labels) (nat (num_classes FLAGS))
               \<and> (\<forall>i<length labels. \<forall>j \<in> set (samples ! i).
                     j < length (labels ! i) \<and> 1 \<le> labels ! i ! j \<and> labels ! i ! j < 2 ^ 31
                     \<and> 0 < tf_cast_int32 labels ! i ! j)))
       \<and> ((\<exists>row \<in> set labels. \<forall>y \<in> set row. y < 1 \<or> 2 ^ 31 \<le> y) \<longrightarrow>
            CosineHingeLoss_positive_samples FLAGS random_uniform labels = Inl TensorFlowError)"
  using positive_samples_ok [OF assms] positive_samples_fails [OF assms(1,3)] assms(4)
  by blast

text \<open>Two classes and two examples, every draw \<open>[1, 0]\<close>: the labels \<open>[[1, 0], [1, 1]]\<close>
  give the samples \<open>[[0, 0], [1, 0]]\<close>; the labels \<open>[[1, 0], [0, 0]]\<close> raise, and so do the
  labels \<open>[[1, 0], [2^31, 0]]\<close>, whose entry \<open>2^31\<close> is not positive as an int32.\<close>

lemmas sampling_eval = CosineHingeLoss_positive_samples_def tf_cast_int32_def int32_of_real_def
  ew1_def tf_unstack_def
  gather_positive_sample_def where_positive_def tf_tile_def tf_gather_def tf_stack_def

theorem C10_positive_resampling_needs_a_positive_label_witness:
  "CosineHingeLoss_positive_samples
     \<lparr>false_negative_punishment = 1, false_positive_punishment = 1, num_classes = 2, batch_size = 2\<rparr>
     (\<lambda>i. [1, 0]) [[1, 0], [1, 1]] = Inr [[0, 0], [1, 0]]
   \<and> CosineHingeLoss_positive_samples
     \<lparr>false_negative_punishment = 1, false_positive_punishment = 1, num_classes = 2, batch_size = 2\<rparr>
     (\<lambda>i. [1, 0]) [[1, 0], [0, 0]] = Inl TensorFlowError
   \<and> CosineHingeLoss_positive_samples
     \<lparr>false_negative_punishment = 1, false_positive_punishment = 1, num_classes = 2, batch_size = 2\<rparr>
     (\<lambda>i. [1, 0]) [[1, 0], [2 ^ 31, 0]] = Inl TensorFlowError"
  using C10_positive_resampling_needs_a_positive_label [of
     "\<lparr>false_negative_punishment = 1, false_positive_punishment = 1, num_classes = 2, batch_size = 2\<rparr>"
     "[[1, 0], [1, 1]]" "\<lambda>i. [1, 0]"]
   C10_positive_resampling_needs_a_positive_label [of
     "\<lparr>false_negative_punishment = 1, false_positive_punishment = 1, num_classes = 2, batch_size = 2\<rparr>"
     "[[1, 0], [0, 0]]" "\<lambda>i. [1, 0]"]
   C10_positive_resampling_needs_a_positive_label [of
     "\<lparr>false_negative_punishment = 1, false_positive_punishment = 1, num_classes = 2, batch_size = 2\<rparr>"
     "[[1, 0], [2 ^ 31, 0]]" "\<lambda>i. [1, 0]"]
  by (simp add: sampling_eval upt_rec numeral_2_eq_2)

subsection \<open>The similarities of CosineHingeLoss\<close>

lemma sum_squares_nonneg: "0 \<le> sum_squares v"
  by (auto simp: sum_squares_def intro!: sum_list_nonneg)

lemma sum_squares_Cons: "sum_squares (x # v) = x * x + sum_squares v"
  by (simp add: sum_squares_def)

lemma sum_squares_scale: "sum_squares (map (\<lambda>x. x * c) v) = c * c * sum_squares v"
  by (induction v) (simp_all add: sum_squares_def algebra_simps)

lemma two_dot_le: "2 * dot u v \<le> sum_squares u + sum_squares v"
proof (induction u arbitrary: v)
  case Nil
  show ?case using sum_squares_nonneg [of v] by (simp add: dot_def sum_squares_def)
next
  case (Cons x u)
  show ?case
  proof (cases v)
    case Nil
    then show ?thesis using sum_squares_nonneg [of "x # u"] by (simp add: dot_def sum_squares_def)
  next
    case (Cons y w)
    have "0 \<le> (x - y) * (x - y)" by simp
    then have xy: "2 * (x * y) \<le> x * x + y * y" by (simp add: algebra_simps)
    have "dot (x # u) (y # w) = x * y + dot u w" by (simp add: dot_def)
    then show ?thesis
      using Cons.IH [of w] xy unfolding Cons sum_squares_Cons by linarith
  qed
qed

lemma sum_squares_l2_normalize: "sum_squares (l2_normalize_row v) \<le> 1"
proof -
  define M where "M = max (sum_squares v) (1 / 10 ^ 12)"
  have M: "0 < M" "sum_squares v \<le> M" by (simp_all add: M_def)
  have "sum_squares (l2_normalize_row v) = (1 / sqrt M) * (1 / sqrt M) * sum_squares v"
    unfolding l2_normalize_row_def M_def [symmetric] by (rule sum_squares_scale)
  also have "\<dots> = sum_squares v / M"
    using M(1) by (simp add: power2_eq_square [symmetric] real_sqrt_pow2 field_simps)
  also have "\<dots> \<le> 1" using M by simp
  finally show ?thesis .
qed

lemma cosine_le_one: "dot (l2_normalize_row u) (l2_normalize_row v) \<le> 1"
  using two_dot_le [of "l2_normalize_row u" "l2_normalize_row v"]
    sum_squares_l2_normalize [of u] sum_squares_l2_normalize [of v] by linarith

lemma sim_pos_row:
  "i < length predictions \<Longrightarrow>
   CosineHingeLoss_sim_pos predictions positives ! i =
     map (\<lambda>v. dot (l2_normalize_row (predictions ! i)) (l2_normalize_row v)) positives"
  by (simp add: CosineHingeLoss_sim_pos_def einsum_ik_jk_ij_def tf_nn_l2_normalize_1_def comp_def)

lemma sim_pos_length: "length (CosineHingeLoss_sim_pos predictions positives) = length predictions"
  by (simp add: CosineHingeLoss_sim_pos_def einsum_ik_jk_ij_def tf_nn_l2_normalize_1_def)

lemma sim_pos_le_one:
  "i < length predictions \<Longrightarrow> j < length positives \<Longrightarrow>
   CosineHingeLoss_sim_pos predictions positives ! i ! j \<le> 1"
  by (simp add: sim_pos_row cosine_le_one)

lemma reduce_min_row_Min:
  assumes "xs \<noteq> []"
  shows "reduce_min_row xs = Some (Min (set xs))"
proof (cases xs)
  case Nil
  then show ?thesis using assms by simp
next
  case (Cons x ys)
  have "fold min ys x = Min (set (x # ys))" by (rule Min.set_eq_fold [symmetric])
  then show ?thesis using Cons by simp
qed

lemma map2_conv_nth:
  "length xs = length ys \<Longrightarrow> map2 f xs ys = map (\<lambda>j. f (xs ! j) (ys ! j)) [0..<length ys]"
  by (auto intro!: nth_equalityI)

lemma min_masked:
  assumes len: "length sims = length labs"
    and le1: "\<forall>j<length sims. sims ! j \<le> 1"
    and bin: "\<forall>y \<in> set labs. y = 0 \<or> y = 1"
    and ex: "\<exists>y \<in> set labs. y = 1"
  shows "Min (set (map2 (\<lambda>x y. x * y) (map (\<lambda>s. s - 1) sims) labs)) + 1 =
         spec_min_true_similarity sims labs"
proof -
  let ?T = "{sims ! j | j. j < length labs \<and> labs ! j = 1}"
  let ?A = "set (map2 (\<lambda>x y. x * y) (map (\<lambda>s. s - 1) sims) labs)"
  have A: "?A = {(sims ! j - 1) * labs ! j | j. j < length labs}"
    using len by (auto simp: map2_conv_nth)
  have finT: "finite ?T" by simp
  obtain j0 where j0: "j0 < length labs" "labs ! j0 = 1"
    using ex by (auto simp: in_set_conv_nth)
  then have neT: "?T \<noteq> {}" by blast
  define m where "m = Min ?T"
  have "m \<in> ?T" unfolding m_def using finT neT by (rule Min_in)
  then obtain j1 where j1: "j1 < length labs" "labs ! j1 = 1" "m = sims ! j1" by blast
  have m1: "m \<le> 1" using j1 le1 len by simp
  have inA: "m - 1 \<in> ?A"
    unfolding A using j1 by force
  have lb: "\<And>a. a \<in> ?A \<Longrightarrow> m - 1 \<le> a"
  proof -
    fix a assume "a \<in> ?A"
    then obtain j where j: "j < length labs" "a = (sims ! j - 1) * labs ! j"
      unfolding A by blast
    have "labs ! j = 0 \<or> labs ! j = 1" using bin j(1) by simp
    then show "m - 1 \<le> a"
    proof
      assume "labs ! j = 0"
      then show ?thesis using j(2) m1 by simp
    next
      assume y: "labs ! j = 1"
      then have "sims ! j \<in> ?T" using j(1) by blast
      then have "m \<le> sims ! j" unfolding m_def using finT by (simp add: Min_le)
      then show ?thesis using j(2) y by simp
    qed
  qed
  have "Min ?A = m - 1"
    by (rule Min_eqI) (use inA lb in auto)
  then show ?thesis
    unfolding spec_min_true_similarity_def m_def by simp
qed

text \<open>
  C6. Take an example \<open>i\<close> whose row of labels has one entry for every class embedding,
  every entry 0 or 1 and at least one entry 1. Then the entry of \<open>min_sim\<close> for the example,
  \<open>reduce_min((sim_pos - 1) * mask) + 1\<close> over the class axis, is the least \<open>sim_pos[i, j]\<close>
  over the classes \<open>j\<close> labeled 1: every similarity is at most 1, so a class labeled 0
  contributes \<open>0\<close>, which is not below \<open>sim_pos[i, j] - 1\<close> of a class labeled 1.
\<close>

theorem C6_min_sim_is_min_over_true_classes:
  assumes "i < length predictions" and "length labels = length predictions"
    and "length (labels ! i) = length positives"
    and "\<forall>y \<in> set (labels ! i). y = 0 \<or> y = 1"
    and "\<exists>y \<in> set (labels ! i). y = 1"
  shows "CosineHingeLoss_min_sim predictions positives labels ! i =
     [Some (spec_min_true_similarity (CosineHingeLoss_sim_pos predictions positives ! i) (labels ! i))]"
proof -
  let ?sim = "CosineHingeLoss_sim_pos predictions positives"
  have lens: "length (?sim ! i) = length (labels ! i)"
    using assms(1,3) by (simp add: sim_pos_row)
  have ne: "labels ! i \<noteq> []" using assms(5) by auto
  have le1: "\<forall>j<length (?sim ! i). ?sim ! i ! j \<le> 1"
    using assms(1,3) lens sim_pos_le_one by simp
  let ?prod = "tf_multiply (sub_scalar ?sim 1.0) (tf_cast_float32 labels)"
  have row: "?prod ! i = map2 (\<lambda>x y. x * y) (map (\<lambda>s. s - 1) (?sim ! i)) (labels ! i)"
    using assms(1,2) lens
    by (simp add: tf_multiply_def sub_scalar_def tf_cast_float32_def ew1_def ew2_def
        bcast_same_length sim_pos_length)
  have plen: "i < length ?prod"
    using assms(1,2)
    by (simp add: tf_multiply_def sub_scalar_def tf_cast_float32_def ew1_def ew2_def
        bcast_same_length sim_pos_length)
  have rne: "?prod ! i \<noteq> []"
    unfolding row using ne lens by (cases "labels ! i"; cases "?sim ! i") auto
  have "CosineHingeLoss_min_sim predictions positives labels ! i =
        [map_option (\<lambda>m. m + 1) (reduce_min_row (?prod ! i))]"
    using plen by (simp add: CosineHingeLoss_min_sim_def tf_reduce_min_1_keep_dims_def ew1_def)
  also have "\<dots> = [Some (Min (set (?prod ! i)) + 1)]"
    using rne by (simp add: reduce_min_row_Min)
  also have "\<dots> = [Some (spec_min_true_similarity (?sim ! i) (labels ! i))]"
    unfolding row using min_masked [OF lens le1 assms(4,5)] by simp
  finally show ?thesis .
qed

text \<open>One example \<open>[1, 0]\<close>, the class embeddings \<open>[1, 0]\<close> and \<open>[0, 1]\<close>, both labeled true:
  the similarities are 1 and 0, and \<open>min_sim\<close> is 0.\<close>

lemmas cosine_eval = CosineHingeLoss_sim_pos_def CosineHingeLoss_min_sim_def einsum_ik_jk_ij_def
  tf_nn_l2_normalize_1_def l2_normalize_row_def sum_squares_def dot_def sub_scalar_def
  tf_reduce_min_1_keep_dims_def

theorem C6_min_sim_is_min_over_true_classes_witness:
  "CosineHingeLoss_sim_pos [[1, 0]] [[1, 0], [0, 1]] = [[1, 0]]
   \<and> CosineHingeLoss_min_sim [[1, 0]] [[1, 0], [0, 1]] [[1, 1]] ! 0 = [Some 0]
   \<and> spec_min_true_similarity [1, 0] [1, 1] = 0"
proof -
  have sim: "CosineHingeLoss_sim_pos [[1, 0]] [[1, 0], [0, 1]] = [[1, 0]]"
    by (simp add: cosine_eval)
  have ms: "CosineHingeLoss_min_sim [[1, 0]] [[1, 0], [0, 1]] [[1, 1]] = [[Some 0]]"
    by (simp add: cosine_eval tensor_eval)
  have "CosineHingeLoss_min_sim [[1, 0]] [[1, 0], [0, 1]] [[1, 1]] ! 0 =
     [Some (spec_min_true_similarity (CosineHingeLoss_sim_pos [[1, 0]] [[1, 0], [0, 1]] ! 0) ([[1, 1]] ! 0))]"
    by (rule C6_min_sim_is_min_over_true_classes) simp_all
  then show ?thesis
    unfolding sim ms by simp
qed

subsection \<open>The result of CosineHingeLoss\<close>





















subsection \<open>Non-negative losses\<close>
















end
